theory Spec2Isabelle
  imports Complex_Main "HOL-Library.Sublist"
begin

section \<open>Python values and exceptions\<close>

text \<open>
  The adapter of \<^verbatim>\<open>bedrock-app.py\<close> handles JSON-shaped Python values only: the
  request bodies it builds, the parsed response bodies and stream chunks, and the result
  dictionary it returns. A dictionary keeps its insertion order, so it is an association
  list; a key is looked up with \<open>map_of\<close>. A Python \<^verbatim>\<open>float\<close> is
  modelled by the real number it denotes: the code only carries floats through
  (temperature, the literal \<^verbatim>\<open>0.9\<close>) or, in \<^verbatim>\<open>calculate_cost\<close>,
  does arithmetic that is read here as exact arithmetic, without IEEE rounding.
\<close>

datatype py_val =
    PyNone
  | PyBool bool
  | PyInt int
  | PyFloat real
  | PyStr string
  | PyList "py_val list"
  | PyDict "(string \<times> py_val) list"

text \<open>
  The instances of \<^verbatim>\<open>Exception\<close> the code can meet. The argument is what
  \<^verbatim>\<open>str(e)\<close> returns, except for \<open>UnboundLocalError\<close>, which carries the
  name of the local variable. \<open>OtherException\<close> stands for whatever the transport or
  the JSON parser raises. Signals that are not instances of \<^verbatim>\<open>Exception\<close>
  (\<^verbatim>\<open>KeyboardInterrupt\<close>, \<^verbatim>\<open>GeneratorExit\<close>) are not modelled.
\<close>

datatype py_exn =
    KeyError string
  | IndexError string
  | TypeError string
  | AttributeError string
  | UnboundLocalError string
  | OtherException string

text \<open>\<^verbatim>\<open>repr(s)\<close> of a string without quotes or escapes: \<open>s\<close> in single quotes.\<close>

definition quoted :: "string \<Rightarrow> string" where
  "quoted s = [CHR 0x27] @ s @ [CHR 0x27]"

fun str_exn :: "py_exn \<Rightarrow> string" where
  "str_exn (KeyError s) = s"
| "str_exn (IndexError s) = s"
| "str_exn (TypeError s) = s"
| "str_exn (AttributeError s) = s"
| "str_exn (UnboundLocalError v) =
     ''cannot access local variable '' @ quoted v @ '' where it is not associated with a value''"
| "str_exn (OtherException s) = s"

fun type_name :: "py_val \<Rightarrow> string" where
  "type_name PyNone = ''NoneType''"
| "type_name (PyBool _) = ''bool''"
| "type_name (PyInt _) = ''int''"
| "type_name (PyFloat _) = ''float''"
| "type_name (PyStr _) = ''str''"
| "type_name (PyList _) = ''list''"
| "type_name (PyDict _) = ''dict''"

text \<open>\<^verbatim>\<open>v[k]\<close> for a string key \<open>k\<close> (a literal of the source in every use).\<close>

fun getitem :: "py_val \<Rightarrow> string \<Rightarrow> py_exn + py_val" where
  "getitem (PyDict kvs) k =
     (case map_of kvs k of
        None \<Rightarrow> Inl (KeyError (quoted k))
      | Some v \<Rightarrow> Inr v)"
| "getitem (PyList _) k = Inl (TypeError ''list indices must be integers or slices, not str'')"
| "getitem (PyStr _) k = Inl (TypeError (''string indices must be integers, not '' @ quoted ''str''))"
| "getitem v k = Inl (TypeError (quoted (type_name v) @ '' object is not subscriptable''))"

text \<open>\<^verbatim>\<open>v[0]\<close>. The keys of a parsed JSON object are strings, so \<open>0\<close> is never one.\<close>

fun getitem0 :: "py_val \<Rightarrow> py_exn + py_val" where
  "getitem0 (PyList []) = Inl (IndexError ''list index out of range'')"
| "getitem0 (PyList (x # _)) = Inr x"
| "getitem0 (PyStr []) = Inl (IndexError ''string index out of range'')"
| "getitem0 (PyStr (c # _)) = Inr (PyStr [c])"
| "getitem0 (PyDict _) = Inl (KeyError ''0'')"
| "getitem0 v = Inl (TypeError (quoted (type_name v) @ '' object is not subscriptable''))"

text \<open>\<^verbatim>\<open>v.get(k, d)\<close>.\<close>

fun py_get :: "py_val \<Rightarrow> string \<Rightarrow> py_val \<Rightarrow> py_exn + py_val" where
  "py_get (PyDict kvs) k d = Inr (case map_of kvs k of None \<Rightarrow> d | Some v \<Rightarrow> v)"
| "py_get v k d =
     Inl (AttributeError (quoted (type_name v) @ '' object has no attribute '' @ quoted ''get''))"

text \<open>\<^verbatim>\<open>full_text += v\<close> for a string \<open>full_text\<close>.\<close>

fun str_iadd :: "string \<Rightarrow> py_val \<Rightarrow> py_exn + string" where
  "str_iadd s (PyStr t) = Inr (s @ t)"
| "str_iadd s v =
     Inl (TypeError (''can only concatenate str (not '' @ [CHR 0x22] @ type_name v @
                     [CHR 0x22] @ '') to str''))"

text \<open>\<^verbatim>\<open>sub in s\<close> on strings: \<open>sub\<close> occurs somewhere in \<open>s\<close>.\<close>

fun py_in :: "string \<Rightarrow> string \<Rightarrow> bool" where
  "py_in sub [] = (sub = [])"
| "py_in sub (c # cs) = (prefix sub (c # cs) \<or> py_in sub cs)"

section \<open>The model registry and the cost calculator\<close>

text \<open>
  \<^verbatim>\<open>MODELS\<close>: the key \<^verbatim>\<open>id\<close> is the field \<open>id_cfg\<close> here, and
  \<^verbatim>\<open>max_tokens\<close> is \<open>max_tokens_cfg\<close>.
\<close>

record model_config =
  id_cfg :: string
  input_price_per_1k :: real
  output_price_per_1k :: real
  max_tokens_cfg :: int
  description :: string

definition MODELS :: "(string \<times> model_config) list" where
  "MODELS =
    [(''Claude 3 Sonnet'',
        \<lparr>id_cfg = ''anthropic.claude-3-sonnet-20240229-v1:0'',
         input_price_per_1k = 0.003, output_price_per_1k = 0.015, max_tokens_cfg = 4096,
         description = ''Best for reasoning, analysis, creative writing''\<rparr>),
     (''Claude 3 Haiku'',
        \<lparr>id_cfg = ''anthropic.claude-3-haiku-20240307-v1:0'',
         input_price_per_1k = 0.00025, output_price_per_1k = 0.00125, max_tokens_cfg = 4096,
         description = ''Fastest and most cost-effective''\<rparr>),
     (''Llama 2 70B'',
        \<lparr>id_cfg = ''meta.llama2-70b-chat-v1'',
         input_price_per_1k = 0.00195, output_price_per_1k = 0.00256, max_tokens_cfg = 2048,
         description = ''Open-source, good for general tasks''\<rparr>),
     (''Titan Text G1 - Express'',
        \<lparr>id_cfg = ''amazon.titan-text-express-v1'',
         input_price_per_1k = 0.0008, output_price_per_1k = 0.0016, max_tokens_cfg = 8192,
         description = ''AWS native, cost-effective for basic tasks''\<rparr>)]"


section \<open>The transport\<close>

text \<open>
  The Bedrock client is outside the program, so its behaviour is a parameter. A call
  either raises (\<open>Inl\<close>) or returns. What \<^verbatim>\<open>invoke_model\<close> returns is
  represented by the outcome of \<^verbatim>\<open>json.loads(response['body'].read())\<close>: an
  exception or the parsed body. What \<^verbatim>\<open>invoke_model_with_response_stream\<close>
  returns is the list of its events, each the outcome of fetching the next event and
  evaluating \<^verbatim>\<open>json.loads(event['chunk']['bytes'])\<close>: an exception (the
  iteration ends there) or the parsed chunk. The \<^verbatim>\<open>body\<close> argument stands for
  the text \<^verbatim>\<open>json.dumps(body)\<close> of the value passed.
\<close>

type_synonym response = "py_exn + py_val"

type_synonym stream_event = "py_exn + py_val"

record client =
  invoke_model :: "string \<Rightarrow> py_val \<Rightarrow> string \<Rightarrow> py_exn + response"
  invoke_model_with_response_stream :: "string \<Rightarrow> py_val \<Rightarrow> string \<Rightarrow> py_exn + stream_event list"

text \<open>Sequencing of statements that may raise: the first exception ends the block.\<close>

definition and_then :: "py_exn + 'a \<Rightarrow> ('a \<Rightarrow> py_exn + 'b) \<Rightarrow> py_exn + 'b" where
  "and_then m f = (case m of Inl e \<Rightarrow> Inl e | Inr x \<Rightarrow> f x)"

section \<open>Single-shot invocation\<close>

text \<open>
  Lines 54 to 82 of \<^verbatim>\<open>invoke_bedrock_model\<close>: the request body by model family.
  \<open>None\<close> is the local variable \<^verbatim>\<open>body\<close> left unbound, when no branch of
  the chain is taken.
\<close>

definition model_request_body :: "string \<Rightarrow> string \<Rightarrow> int \<Rightarrow> real \<Rightarrow> py_val option" where
  "model_request_body model_id prompt max_tokens temperature =
     (if py_in ''anthropic.claude'' model_id then
        Some (PyDict
          [(''anthropic_version'', PyStr ''bedrock-2023-05-31''),
           (''messages'', PyList [PyDict [(''role'', PyStr ''user''), (''content'', PyStr prompt)]]),
           (''max_tokens'', PyInt max_tokens),
           (''temperature'', PyFloat temperature)])
      else if py_in ''meta.llama2'' model_id then
        Some (PyDict
          [(''prompt'', PyStr (''<s>[INST] '' @ prompt @ '' [/INST]'')),
           (''max_gen_len'', PyInt max_tokens),
           (''temperature'', PyFloat temperature),
           (''top_p'', PyFloat 0.9)])
      else if py_in ''amazon.titan'' model_id then
        Some (PyDict
          [(''inputText'', PyStr prompt),
           (''textGenerationConfig'', PyDict
              [(''maxTokenCount'', PyInt max_tokens),
               (''temperature'', PyFloat temperature),
               (''topP'', PyInt 1),
               (''stopSequences'', PyList [])])])
      else None)"

text \<open>
  Lines 94 to 112: the fields read from the parsed response body, and the dictionary
  returned. When no branch is taken, \<^verbatim>\<open>text\<close> is unbound at the
  \<^verbatim>\<open>return\<close>.
\<close>

definition model_parse_response :: "string \<Rightarrow> py_val \<Rightarrow> py_exn + py_val" where
  "model_parse_response model_id response_body =
     and_then
       (if py_in ''anthropic.claude'' model_id then
          and_then (getitem response_body ''content'') (\<lambda>content.
          and_then (getitem0 content) (\<lambda>block.
          and_then (getitem block ''text'') (\<lambda>text.
          and_then (getitem response_body ''usage'') (\<lambda>usage.
          and_then (getitem usage ''input_tokens'') (\<lambda>input_tokens.
          and_then (getitem response_body ''usage'') (\<lambda>usage'.
          and_then (getitem usage' ''output_tokens'') (\<lambda>output_tokens.
          Inr (text, input_tokens, output_tokens))))))))
        else if py_in ''meta.llama2'' model_id then
          and_then (getitem response_body ''generation'') (\<lambda>text.
          and_then (py_get response_body ''prompt_token_count'' (PyInt 0)) (\<lambda>input_tokens.
          and_then (py_get response_body ''generation_token_count'' (PyInt 0)) (\<lambda>output_tokens.
          Inr (text, input_tokens, output_tokens))))
        else if py_in ''amazon.titan'' model_id then
          and_then (getitem response_body ''results'') (\<lambda>results.
          and_then (getitem0 results) (\<lambda>result.
          and_then (getitem result ''outputText'') (\<lambda>text.
          and_then (getitem response_body ''inputTextTokenCount'') (\<lambda>input_tokens.
          and_then (getitem response_body ''results'') (\<lambda>results'.
          and_then (getitem0 results') (\<lambda>result'.
          and_then (getitem result' ''tokenCount'') (\<lambda>output_tokens.
          Inr (text, input_tokens, output_tokens))))))))
        else Inl (UnboundLocalError ''text''))
       (\<lambda>(text, input_tokens, output_tokens).
          Inr (PyDict
            [(''text'', text),
             (''input_tokens'', input_tokens),
             (''output_tokens'', output_tokens),
             (''success'', PyBool True)]))"

text \<open>The body of the \<^verbatim>\<open>try\<close> block, lines 54 to 112.\<close>

definition model_try :: "client \<Rightarrow> string \<Rightarrow> string \<Rightarrow> int \<Rightarrow> real \<Rightarrow> py_exn + py_val" where
  "model_try client model_id prompt max_tokens temperature =
     (case model_request_body model_id prompt max_tokens temperature of
        None \<Rightarrow> Inl (UnboundLocalError ''body'')
      | Some body \<Rightarrow>
          and_then (invoke_model client model_id body ''application/json'') (\<lambda>response.
          and_then response (\<lambda>response_body.
          model_parse_response model_id response_body)))"

text \<open>
  \<^verbatim>\<open>invoke_bedrock_model\<close>: the \<^verbatim>\<open>try\<close> block under its handler
  \<^verbatim>\<open>except Exception as e\<close>, lines 114 to 121. \<open>Inl\<close> would be an exception
  that reaches the caller.
\<close>

definition invoke_bedrock_model :: "client \<Rightarrow> string \<Rightarrow> string \<Rightarrow> int \<Rightarrow> real \<Rightarrow> py_exn + py_val" where
  "invoke_bedrock_model client model_id prompt max_tokens temperature =
     (case model_try client model_id prompt max_tokens temperature of
        Inr result \<Rightarrow> Inr result
      | Inl e \<Rightarrow>
          Inr (PyDict
            [(''text'', PyStr (''Error: '' @ str_exn e)),
             (''input_tokens'', PyInt 0),
             (''output_tokens'', PyInt 0),
             (''success'', PyBool False),
             (''error'', PyStr (str_exn e))]))"

section \<open>Streaming invocation\<close>

text \<open>Lines 128 to 150 of \<^verbatim>\<open>invoke_bedrock_streaming\<close>: the request body.\<close>

definition streaming_request_body :: "string \<Rightarrow> string \<Rightarrow> int \<Rightarrow> real \<Rightarrow> py_val option" where
  "streaming_request_body model_id prompt max_tokens temperature =
     (if py_in ''anthropic.claude'' model_id then
        Some (PyDict
          [(''anthropic_version'', PyStr ''bedrock-2023-05-31''),
           (''messages'', PyList [PyDict [(''role'', PyStr ''user''), (''content'', PyStr prompt)]]),
           (''max_tokens'', PyInt max_tokens),
           (''temperature'', PyFloat temperature)])
      else if py_in ''meta.llama2'' model_id then
        Some (PyDict
          [(''prompt'', PyStr (''<s>[INST] '' @ prompt @ '' [/INST]'')),
           (''max_gen_len'', PyInt max_tokens),
           (''temperature'', PyFloat temperature),
           (''top_p'', PyFloat 0.9)])
      else if py_in ''amazon.titan'' model_id then
        Some (PyDict
          [(''inputText'', PyStr prompt),
           (''textGenerationConfig'', PyDict
              [(''maxTokenCount'', PyInt max_tokens),
               (''temperature'', PyFloat temperature),
               (''topP'', PyInt 1)])])
      else None)"

text \<open>
  Lines 164 to 170: what one parsed chunk does to \<^verbatim>\<open>full_text\<close>. When no
  branch is taken nothing is appended.
\<close>

definition stream_chunk :: "string \<Rightarrow> string \<Rightarrow> py_val \<Rightarrow> py_exn + string" where
  "stream_chunk model_id full_text chunk =
     (if py_in ''anthropic.claude'' model_id then
        and_then (getitem chunk ''type'') (\<lambda>ty.
        if ty = PyStr ''content_block_delta'' then
          and_then (getitem chunk ''delta'') (\<lambda>delta.
          and_then (getitem delta ''text'') (\<lambda>text.
          str_iadd full_text text))
        else Inr full_text)
      else if py_in ''meta.llama2'' model_id then
        and_then (py_get chunk ''generation'' (PyStr [])) (\<lambda>generation.
        str_iadd full_text generation)
      else if py_in ''amazon.titan'' model_id then
        and_then (py_get chunk ''outputText'' (PyStr [])) (\<lambda>outputText.
        str_iadd full_text outputText)
      else Inr full_text)"

text \<open>
  A generator's run is the list of the frames it yields and the exception that ends it,
  if one does. The loop of lines 160 to 172 starts from the empty \<^verbatim>\<open>full_text\<close>,
  yields \<^verbatim>\<open>full_text\<close> after each chunk and stops at the first exception.
\<close>

type_synonym generator_run = "string list \<times> py_exn option"

fun stream_loop :: "string \<Rightarrow> string \<Rightarrow> stream_event list \<Rightarrow> generator_run" where
  "stream_loop model_id full_text [] = ([], None)"
| "stream_loop model_id full_text (Inl e # events) = ([], Some e)"
| "stream_loop model_id full_text (Inr chunk # events) =
     (case stream_chunk model_id full_text chunk of
        Inl e \<Rightarrow> ([], Some e)
      | Inr full_text' \<Rightarrow>
          (case stream_loop model_id full_text' events of
             (frames, raised) \<Rightarrow> (full_text' # frames, raised)))"

text \<open>The body of the \<^verbatim>\<open>try\<close> block, lines 128 to 172.\<close>

definition streaming_try :: "client \<Rightarrow> string \<Rightarrow> string \<Rightarrow> int \<Rightarrow> real \<Rightarrow> generator_run" where
  "streaming_try client model_id prompt max_tokens temperature =
     (case streaming_request_body model_id prompt max_tokens temperature of
        None \<Rightarrow> ([], Some (UnboundLocalError ''body''))
      | Some body \<Rightarrow>
          (case invoke_model_with_response_stream client model_id body ''application/json'' of
             Inl e \<Rightarrow> ([], Some e)
           | Inr events \<Rightarrow> stream_loop model_id [] events))"

text \<open>
  \<^verbatim>\<open>invoke_bedrock_streaming\<close>: the \<^verbatim>\<open>try\<close> block under its handler
  \<^verbatim>\<open>except Exception as e\<close>, lines 174 and 175, which yields one more frame.
\<close>

definition invoke_bedrock_streaming :: "client \<Rightarrow> string \<Rightarrow> string \<Rightarrow> int \<Rightarrow> real \<Rightarrow> generator_run" where
  "invoke_bedrock_streaming client model_id prompt max_tokens temperature =
     (case streaming_try client model_id prompt max_tokens temperature of
        (frames, None) \<Rightarrow> (frames, None)
      | (frames, Some e) \<Rightarrow> (frames @ [''Streaming Error: '' @ str_exn e], None))"

section \<open>Model families\<close>

text \<open>
  The family that the chain \<^verbatim>\<open>if ... elif ... elif\<close> of the four places above
  selects for a model id.
\<close>

datatype family = Chat | InstructionTag | FieldNamed

definition family_of :: "string \<Rightarrow> family option" where
  "family_of model_id =
     (if py_in ''anthropic.claude'' model_id then Some Chat
      else if py_in ''meta.llama2'' model_id then Some InstructionTag
      else if py_in ''amazon.titan'' model_id then Some FieldNamed
      else None)"

text \<open>
  The classification as the specification words it: by prefix match at the start of the
  wire id, in the same order.
\<close>

definition family_by_prefix :: "string \<Rightarrow> family option" where
  "family_by_prefix wire_id =
     (if prefix ''anthropic.claude'' wire_id then Some Chat
      else if prefix ''meta.llama2'' wire_id then Some InstructionTag
      else if prefix ''amazon.titan'' wire_id then Some FieldNamed
      else None)"

section \<open>Transports used as concrete inputs\<close>

text \<open>A transport that answers every call the same way.\<close>

definition fixed_client :: "py_exn + response \<Rightarrow> py_exn + stream_event list \<Rightarrow> client" where
  "fixed_client r s =
     \<lparr>invoke_model = (\<lambda>_ _ _. r), invoke_model_with_response_stream = (\<lambda>_ _ _. s)\<rparr>"

section \<open>Auxiliary facts\<close>

text \<open>
  \<open>py_in\<close> is the substring test: \<open>sublist xs ys\<close> holds when \<open>ys = ps @ xs @ ss\<close>
  for some \<open>ps\<close> and \<open>ss\<close>.
\<close>

lemma py_in_sublist: "py_in sub s = sublist sub s"
  by (induction s) (simp_all add: sublist_Cons_right)

lemma family_of_sublist:
  "family_of model_id =
     (if sublist ''anthropic.claude'' model_id then Some Chat
      else if sublist ''meta.llama2'' model_id then Some InstructionTag
      else if sublist ''amazon.titan'' model_id then Some FieldNamed
      else None)"
  by (simp add: family_of_def py_in_sublist)

lemma family_ids:
  "py_in ''anthropic.claude'' ''anthropic.claude''"
  "\<not> py_in ''anthropic.claude'' ''meta.llama2''"
  "py_in ''meta.llama2'' ''meta.llama2''"
  "\<not> py_in ''anthropic.claude'' ''amazon.titan''"
  "\<not> py_in ''meta.llama2'' ''amazon.titan''"
  "py_in ''amazon.titan'' ''amazon.titan''"
  by simp_all

lemma unsupported_bodies:
  "family_of model_id = None \<Longrightarrow>
     model_request_body model_id prompt max_tokens temperature = None \<and>
     streaming_request_body model_id prompt max_tokens temperature = None"
  by (simp add: family_of_def model_request_body_def streaming_request_body_def split: if_splits)

text \<open>
  Outside the Titan family the two entry points build the same request body.
\<close>

lemma request_bodies_agree:
  "family_of model_id \<noteq> Some FieldNamed \<Longrightarrow>
     streaming_request_body model_id prompt max_tokens temperature =
     model_request_body model_id prompt max_tokens temperature"
  by (simp add: family_of_def model_request_body_def streaming_request_body_def split: if_splits)

text \<open>
  A block that ends normally has run every statement of it normally.
\<close>

lemma and_then_Inr: "and_then m f = Inr y \<Longrightarrow> \<exists>x. m = Inr x \<and> f x = Inr y"
  by (cases m) (simp_all add: and_then_def)

lemma model_try_cases:
  assumes "model_request_body model_id prompt max_tokens temperature = Some body"
  shows "model_try client model_id prompt max_tokens temperature =
           (case invoke_model client model_id body ''application/json'' of
              Inl e \<Rightarrow> Inl e
            | Inr (Inl e) \<Rightarrow> Inl e
            | Inr (Inr response_body) \<Rightarrow> model_parse_response model_id response_body)"
  using assms by (simp add: model_try_def and_then_def split: sum.splits)

lemma model_parse_response_dict:
  "model_parse_response model_id response_body = Inr result \<Longrightarrow>
     \<exists>text input_tokens output_tokens.
        result = PyDict [(''text'', text), (''input_tokens'', input_tokens),
                         (''output_tokens'', output_tokens), (''success'', PyBool True)]"
  unfolding model_parse_response_def
  by (auto dest!: and_then_Inr)

lemma model_try_dict:
  "model_try client model_id prompt max_tokens temperature = Inr result \<Longrightarrow>
     \<exists>text input_tokens output_tokens.
        result = PyDict [(''text'', text), (''input_tokens'', input_tokens),
                         (''output_tokens'', output_tokens), (''success'', PyBool True)]"
  unfolding model_try_def
  by (auto split: option.splits dest!: and_then_Inr dest: model_parse_response_dict)

text \<open>
  One chunk only ever appends to \<^verbatim>\<open>full_text\<close>, so the frames of the loop
  form a chain of prefixes that starts at the text the loop is entered with.
\<close>

lemma str_iadd_prefix: "str_iadd s v = Inr s' \<Longrightarrow> prefix s s'"
  by (cases v) auto

lemma stream_chunk_prefix:
  assumes "stream_chunk model_id full_text chunk = Inr full_text'"
  shows "prefix full_text full_text'"
  using assms unfolding stream_chunk_def
  by (auto split: if_splits dest!: and_then_Inr dest: str_iadd_prefix)

lemma stream_loop_chain:
  "stream_loop model_id full_text events = (frames, raised) \<Longrightarrow>
     sorted_wrt prefix (full_text # frames)"
proof (induction events arbitrary: full_text frames raised)
  case Nil
  then show ?case by simp
next
  case (Cons ev events)
  show ?case
  proof (cases ev)
    case (Inl e)
    with Cons.prems show ?thesis by simp
  next
    case (Inr chunk)
    show ?thesis
    proof (cases "stream_chunk model_id full_text chunk")
      case (Inl e)
      with Cons.prems \<open>ev = Inr chunk\<close> show ?thesis by simp
    next
      case step: (Inr full_text')
      obtain fs x where rest: "stream_loop model_id full_text' events = (fs, x)"
        by (cases "stream_loop model_id full_text' events")
      from Cons.prems \<open>ev = Inr chunk\<close> step rest have frames: "frames = full_text' # fs"
        by simp
      from Cons.IH [OF rest] have chain: "sorted_wrt prefix (full_text' # fs)" .
      from stream_chunk_prefix [OF step] have first: "prefix full_text full_text'" .
      from chain first have "\<forall>y\<in>set (full_text' # fs). prefix full_text y"
        by (auto intro: prefix_order.trans)
      with chain frames show ?thesis by simp
    qed
  qed
qed

lemma sorted_wrt_prefix_length: "sorted_wrt prefix xs \<Longrightarrow> sorted (map length xs)"
  by (induction xs) (auto dest: prefix_length_le)

lemma stream_loop_fault:
  "stream_loop model_id full_text pre = (frames, None) \<Longrightarrow>
     stream_loop model_id full_text (pre @ Inl e # rest) = (frames, Some e) \<and>
     length frames = length pre"
proof (induction pre arbitrary: full_text frames)
  case Nil
  then show ?case by simp
next
  case (Cons ev pre)
  then show ?case
    by (cases ev) (auto split: sum.splits prod.splits)
qed

section \<open>Failures of the single-shot path\<close>

text \<open>
  C1. \<open>invoke_bedrock_model\<close> never lets an exception reach its caller: for every
  transport, model id and prompt it returns a dictionary with the keys
  \<^verbatim>\<open>text\<close>, \<^verbatim>\<open>input_tokens\<close>, \<^verbatim>\<open>output_tokens\<close> and a
  boolean \<^verbatim>\<open>success\<close>. When the request body was built and the transport call
  raises \<open>e\<close>, or reading and parsing the response raises \<open>e\<close>, or extracting the
  fields from the parsed response raises \<open>e\<close>, the result has
  \<^verbatim>\<open>success\<close> false, \<^verbatim>\<open>text\<close> equal to \<^verbatim>\<open>"Error: "\<close>
  followed by \<^verbatim>\<open>str(e)\<close>, both token counts 0 and \<^verbatim>\<open>str(e)\<close>
  under \<^verbatim>\<open>error\<close>.
\<close>

theorem invoke_bedrock_model_fault:
  "(\<exists>d. invoke_bedrock_model client model_id prompt max_tokens temperature = Inr (PyDict d)
        \<and> (\<exists>text. map_of d ''text'' = Some text)
        \<and> (\<exists>n. map_of d ''input_tokens'' = Some n)
        \<and> (\<exists>n. map_of d ''output_tokens'' = Some n)
        \<and> (\<exists>b. map_of d ''success'' = Some (PyBool b)))
   \<and> (model_request_body model_id prompt max_tokens temperature = Some body
        \<and> (invoke_model client model_id body ''application/json'' = Inl e
           \<or> invoke_model client model_id body ''application/json'' = Inr (Inl e)
           \<or> (\<exists>response_body.
                 invoke_model client model_id body ''application/json'' = Inr (Inr response_body)
                 \<and> model_parse_response model_id response_body = Inl e))
       \<longrightarrow> invoke_bedrock_model client model_id prompt max_tokens temperature =
             Inr (PyDict
               [(''text'', PyStr (''Error: '' @ str_exn e)),
                (''input_tokens'', PyInt 0),
                (''output_tokens'', PyInt 0),
                (''success'', PyBool False),
                (''error'', PyStr (str_exn e))]))"
proof (intro conjI impI)
  show "\<exists>d. invoke_bedrock_model client model_id prompt max_tokens temperature = Inr (PyDict d)
        \<and> (\<exists>text. map_of d ''text'' = Some text)
        \<and> (\<exists>n. map_of d ''input_tokens'' = Some n)
        \<and> (\<exists>n. map_of d ''output_tokens'' = Some n)
        \<and> (\<exists>b. map_of d ''success'' = Some (PyBool b))"
  proof (cases "model_try client model_id prompt max_tokens temperature")
    case (Inl e')
    then show ?thesis by (auto simp: invoke_bedrock_model_def)
  next
    case (Inr result)
    from model_try_dict [OF Inr] obtain tx input_tokens output_tokens where
      "result = PyDict [(''text'', tx), (''input_tokens'', input_tokens),
                        (''output_tokens'', output_tokens), (''success'', PyBool True)]"
      by blast
    with Inr show ?thesis by (auto simp: invoke_bedrock_model_def)
  qed
next
  assume fault: "model_request_body model_id prompt max_tokens temperature = Some body
        \<and> (invoke_model client model_id body ''application/json'' = Inl e
           \<or> invoke_model client model_id body ''application/json'' = Inr (Inl e)
           \<or> (\<exists>response_body.
                 invoke_model client model_id body ''application/json'' = Inr (Inr response_body)
                 \<and> model_parse_response model_id response_body = Inl e))"
  then have "model_try client model_id prompt max_tokens temperature = Inl e"
    by (auto simp: model_try_cases)
  then show "invoke_bedrock_model client model_id prompt max_tokens temperature =
             Inr (PyDict
               [(''text'', PyStr (''Error: '' @ str_exn e)),
                (''input_tokens'', PyInt 0),
                (''output_tokens'', PyInt 0),
                (''success'', PyBool False),
                (''error'', PyStr (str_exn e))])"
    by (simp add: invoke_bedrock_model_def)
qed

text \<open>
  The theorem for C1 at a transport that raises a throttling error, and at one whose
  response has an empty \<^verbatim>\<open>content\<close> list.
\<close>

theorem invoke_bedrock_model_fault_witness:
  "invoke_bedrock_model (fixed_client (Inl (OtherException ''ThrottlingException'')) (Inr []))
     ''anthropic.claude-3-haiku-20240307-v1:0'' ''Hi'' 50 0.5 =
   Inr (PyDict
     [(''text'', PyStr ''Error: ThrottlingException''),
      (''input_tokens'', PyInt 0),
      (''output_tokens'', PyInt 0),
      (''success'', PyBool False),
      (''error'', PyStr ''ThrottlingException'')])
   \<and> invoke_bedrock_model (fixed_client (Inr (Inr (PyDict [(''content'', PyList [])]))) (Inr []))
     ''anthropic.claude-3-haiku-20240307-v1:0'' ''Hi'' 50 0.5 =
   Inr (PyDict
     [(''text'', PyStr ''Error: list index out of range''),
      (''input_tokens'', PyInt 0),
      (''output_tokens'', PyInt 0),
      (''success'', PyBool False),
      (''error'', PyStr ''list index out of range'')])"
proof -
  let ?id = "''anthropic.claude-3-haiku-20240307-v1:0''"
  let ?body = "PyDict
         [(''anthropic_version'', PyStr ''bedrock-2023-05-31''),
          (''messages'', PyList [PyDict [(''role'', PyStr ''user''), (''content'', PyStr ''Hi'')]]),
          (''max_tokens'', PyInt 50),
          (''temperature'', PyFloat 0.5)]"
  have body: "model_request_body ?id ''Hi'' 50 0.5 = Some ?body"
    by (simp add: model_request_body_def)
  have parse: "model_parse_response ?id (PyDict [(''content'', PyList [])]) =
      Inl (IndexError ''list index out of range'')"
    by (simp add: model_parse_response_def and_then_def)
  from invoke_bedrock_model_fault
    [of "fixed_client (Inl (OtherException ''ThrottlingException'')) (Inr [])"
        ?id "''Hi''" 50 "0.5" ?body "OtherException ''ThrottlingException''"]
    body
  have first: "invoke_bedrock_model
      (fixed_client (Inl (OtherException ''ThrottlingException'')) (Inr [])) ?id ''Hi'' 50 0.5 =
      Inr (PyDict
        [(''text'', PyStr ''Error: ThrottlingException''),
         (''input_tokens'', PyInt 0),
         (''output_tokens'', PyInt 0),
         (''success'', PyBool False),
         (''error'', PyStr ''ThrottlingException'')])"
    by (simp add: fixed_client_def)
  from invoke_bedrock_model_fault
    [of "fixed_client (Inr (Inr (PyDict [(''content'', PyList [])]))) (Inr [])"
        ?id "''Hi''" 50 "0.5" ?body "IndexError ''list index out of range''"]
    body parse
  have second: "invoke_bedrock_model
      (fixed_client (Inr (Inr (PyDict [(''content'', PyList [])]))) (Inr [])) ?id ''Hi'' 50 0.5 =
      Inr (PyDict
        [(''text'', PyStr ''Error: list index out of range''),
         (''input_tokens'', PyInt 0),
         (''output_tokens'', PyInt 0),
         (''success'', PyBool False),
         (''error'', PyStr ''list index out of range'')])"
    by (simp add: fixed_client_def)
  from first second show ?thesis by simp
qed

section \<open>Model ids of no family\<close>

text \<open>
  C2, as the code has it. The code has no error of its own for a model id of no family.
  For every model id that contains none of the three family names, both entry points
  fail in the ordinary way and for a cause that does not depend on the transport, which
  is not called: \<open>invoke_bedrock_model\<close> returns the result with
  \<^verbatim>\<open>success\<close> false, the text \<^verbatim>\<open>"Error: "\<close> followed by the
  cause, both token counts 0 and the cause under \<^verbatim>\<open>error\<close>, and
  \<open>invoke_bedrock_streaming\<close> yields the one frame
  \<^verbatim>\<open>"Streaming Error: "\<close> followed by the cause, and ends normally.
\<close>

theorem unsupported_model_id_fails:
  assumes "family_of model_id = None"
  shows "\<exists>cause. \<forall>client.
           invoke_bedrock_model client model_id prompt max_tokens temperature =
             Inr (PyDict
               [(''text'', PyStr (''Error: '' @ cause)),
                (''input_tokens'', PyInt 0),
                (''output_tokens'', PyInt 0),
                (''success'', PyBool False),
                (''error'', PyStr cause)])
         \<and> invoke_bedrock_streaming client model_id prompt max_tokens temperature =
             ([''Streaming Error: '' @ cause], None)"
proof (intro exI allI)
  fix client
  from unsupported_bodies [OF assms, of prompt max_tokens temperature]
  show "invoke_bedrock_model client model_id prompt max_tokens temperature =
             Inr (PyDict
               [(''text'', PyStr (''Error: '' @ str_exn (UnboundLocalError ''body''))),
                (''input_tokens'', PyInt 0),
                (''output_tokens'', PyInt 0),
                (''success'', PyBool False),
                (''error'', PyStr (str_exn (UnboundLocalError ''body'')))])
         \<and> invoke_bedrock_streaming client model_id prompt max_tokens temperature =
             ([''Streaming Error: '' @ str_exn (UnboundLocalError ''body'')], None)"
    by (simp add: invoke_bedrock_model_def model_try_def invoke_bedrock_streaming_def
        streaming_try_def)
qed

text \<open>
  The theorem for C2 at the model id \<^verbatim>\<open>foo.bar-v1\<close>.
\<close>

theorem unsupported_model_id_fails_witness:
  "family_of ''foo.bar-v1'' = None
   \<and> (\<exists>cause.
         invoke_bedrock_model (fixed_client (Inr (Inr PyNone)) (Inr [])) ''foo.bar-v1'' ''Hi'' 50 0.5 =
           Inr (PyDict
             [(''text'', PyStr (''Error: '' @ cause)),
              (''input_tokens'', PyInt 0),
              (''output_tokens'', PyInt 0),
              (''success'', PyBool False),
              (''error'', PyStr cause)])
         \<and> invoke_bedrock_streaming (fixed_client (Inr (Inr PyNone)) (Inr [])) ''foo.bar-v1'' ''Hi'' 50 0.5 =
           ([''Streaming Error: '' @ cause], None))"
proof -
  have none: "family_of ''foo.bar-v1'' = None"
    by (simp add: family_of_def)
  from unsupported_model_id_fails [OF none, of "''Hi''" 50 "0.5"] none show ?thesis
    by blast
qed

text \<open>
  C2 as stated fails: at \<^verbatim>\<open>foo.bar-v1\<close> no branch of the chain binds
  \<^verbatim>\<open>body\<close>, so both \<^verbatim>\<open>try\<close> blocks end with Python's
  \<^verbatim>\<open>UnboundLocalError\<close> at \<^verbatim>\<open>json.dumps(body)\<close>, a fault
  unrelated to model support, and what the caller sees is its message.
\<close>

theorem unsupported_model_id_counterexample:
  "model_try (fixed_client (Inr (Inr PyNone)) (Inr [])) ''foo.bar-v1'' ''Hi'' 50 0.5 =
     Inl (UnboundLocalError ''body'')
   \<and> invoke_bedrock_model (fixed_client (Inr (Inr PyNone)) (Inr [])) ''foo.bar-v1'' ''Hi'' 50 0.5 =
       Inr (PyDict
         [(''text'', PyStr ''Error: cannot access local variable 'body' where it is not associated with a value''),
          (''input_tokens'', PyInt 0),
          (''output_tokens'', PyInt 0),
          (''success'', PyBool False),
          (''error'', PyStr ''cannot access local variable 'body' where it is not associated with a value'')])
   \<and> streaming_try (fixed_client (Inr (Inr PyNone)) (Inr [])) ''foo.bar-v1'' ''Hi'' 50 0.5 =
       ([], Some (UnboundLocalError ''body''))
   \<and> invoke_bedrock_streaming (fixed_client (Inr (Inr PyNone)) (Inr [])) ''foo.bar-v1'' ''Hi'' 50 0.5 =
       ([''Streaming Error: cannot access local variable 'body' where it is not associated with a value''], None)"
  by (simp add: invoke_bedrock_model_def model_try_def invoke_bedrock_streaming_def
      streaming_try_def model_request_body_def streaming_request_body_def quoted_def)

section \<open>Family dispatch\<close>

text \<open>
  C3, as the code has it. The four chains (the two request bodies, the response
  fields, the chunk text) select the family by containment: the family name may occur
  anywhere in the model id. They test \<^verbatim>\<open>anthropic.claude\<close> first, then
  \<^verbatim>\<open>meta.llama2\<close>, then \<^verbatim>\<open>amazon.titan\<close>, and the first name
  found wins; an id that contains none of them has no family. Each chain depends on the
  model id through its family only.
\<close>

theorem family_dispatch_by_substring:
  "family_of model_id =
     (if sublist ''anthropic.claude'' model_id then Some Chat
      else if sublist ''meta.llama2'' model_id then Some InstructionTag
      else if sublist ''amazon.titan'' model_id then Some FieldNamed
      else None)
   \<and> model_request_body model_id prompt max_tokens temperature =
       (case family_of model_id of
          None \<Rightarrow> None
        | Some Chat \<Rightarrow> model_request_body ''anthropic.claude'' prompt max_tokens temperature
        | Some InstructionTag \<Rightarrow> model_request_body ''meta.llama2'' prompt max_tokens temperature
        | Some FieldNamed \<Rightarrow> model_request_body ''amazon.titan'' prompt max_tokens temperature)
   \<and> streaming_request_body model_id prompt max_tokens temperature =
       (case family_of model_id of
          None \<Rightarrow> None
        | Some Chat \<Rightarrow> streaming_request_body ''anthropic.claude'' prompt max_tokens temperature
        | Some InstructionTag \<Rightarrow> streaming_request_body ''meta.llama2'' prompt max_tokens temperature
        | Some FieldNamed \<Rightarrow> streaming_request_body ''amazon.titan'' prompt max_tokens temperature)
   \<and> model_parse_response model_id response_body =
       (case family_of model_id of
          None \<Rightarrow> Inl (UnboundLocalError ''text'')
        | Some Chat \<Rightarrow> model_parse_response ''anthropic.claude'' response_body
        | Some InstructionTag \<Rightarrow> model_parse_response ''meta.llama2'' response_body
        | Some FieldNamed \<Rightarrow> model_parse_response ''amazon.titan'' response_body)
   \<and> stream_chunk model_id full_text chunk =
       (case family_of model_id of
          None \<Rightarrow> Inr full_text
        | Some Chat \<Rightarrow> stream_chunk ''anthropic.claude'' full_text chunk
        | Some InstructionTag \<Rightarrow> stream_chunk ''meta.llama2'' full_text chunk
        | Some FieldNamed \<Rightarrow> stream_chunk ''amazon.titan'' full_text chunk)"
proof (intro conjI)
  show "family_of model_id =
     (if sublist ''anthropic.claude'' model_id then Some Chat
      else if sublist ''meta.llama2'' model_id then Some InstructionTag
      else if sublist ''amazon.titan'' model_id then Some FieldNamed
      else None)"
    by (rule family_of_sublist)
next
  show "model_request_body model_id prompt max_tokens temperature =
       (case family_of model_id of
          None \<Rightarrow> None
        | Some Chat \<Rightarrow> model_request_body ''anthropic.claude'' prompt max_tokens temperature
        | Some InstructionTag \<Rightarrow> model_request_body ''meta.llama2'' prompt max_tokens temperature
        | Some FieldNamed \<Rightarrow> model_request_body ''amazon.titan'' prompt max_tokens temperature)"
    using family_ids by (simp add: family_of_def model_request_body_def)
next
  show "streaming_request_body model_id prompt max_tokens temperature =
       (case family_of model_id of
          None \<Rightarrow> None
        | Some Chat \<Rightarrow> streaming_request_body ''anthropic.claude'' prompt max_tokens temperature
        | Some InstructionTag \<Rightarrow> streaming_request_body ''meta.llama2'' prompt max_tokens temperature
        | Some FieldNamed \<Rightarrow> streaming_request_body ''amazon.titan'' prompt max_tokens temperature)"
    using family_ids by (simp add: family_of_def streaming_request_body_def)
next
  show "model_parse_response model_id response_body =
       (case family_of model_id of
          None \<Rightarrow> Inl (UnboundLocalError ''text'')
        | Some Chat \<Rightarrow> model_parse_response ''anthropic.claude'' response_body
        | Some InstructionTag \<Rightarrow> model_parse_response ''meta.llama2'' response_body
        | Some FieldNamed \<Rightarrow> model_parse_response ''amazon.titan'' response_body)"
    using family_ids by (simp add: family_of_def model_parse_response_def and_then_def)
next
  show "stream_chunk model_id full_text chunk =
       (case family_of model_id of
          None \<Rightarrow> Inr full_text
        | Some Chat \<Rightarrow> stream_chunk ''anthropic.claude'' full_text chunk
        | Some InstructionTag \<Rightarrow> stream_chunk ''meta.llama2'' full_text chunk
        | Some FieldNamed \<Rightarrow> stream_chunk ''amazon.titan'' full_text chunk)"
    using family_ids by (simp add: family_of_def stream_chunk_def)
qed

text \<open>
  C3 as stated fails: the match is not at the start of the string. The id of a
  cross-region inference profile, \<^verbatim>\<open>us.anthropic.claude-3-haiku-20240307-v1:0\<close>,
  starts with none of the three prefixes, and the code builds the Chat request body for it.
\<close>

theorem family_prefix_counterexample:
  "family_by_prefix ''us.anthropic.claude-3-haiku-20240307-v1:0'' = None
   \<and> family_of ''us.anthropic.claude-3-haiku-20240307-v1:0'' = Some Chat
   \<and> model_request_body ''us.anthropic.claude-3-haiku-20240307-v1:0'' ''Hi'' 50 0.5 =
       Some (PyDict
         [(''anthropic_version'', PyStr ''bedrock-2023-05-31''),
          (''messages'', PyList [PyDict [(''role'', PyStr ''user''), (''content'', PyStr ''Hi'')]]),
          (''max_tokens'', PyInt 50),
          (''temperature'', PyFloat 0.5)])"
  by (simp add: family_by_prefix_def family_of_def model_request_body_def)

section \<open>Frames of the streaming path\<close>

text \<open>
  C4, as the code has it. The frames that the loop yields, which are all the frames
  of the generator but the final \<^verbatim>\<open>"Streaming Error: ..."\<close> frame that the
  handler adds after a fault, are in nondecreasing order of length, and each of them
  extends every earlier one as a prefix. When no fault occurs these are all the frames.
\<close>

theorem loop_frames_grow:
  "sorted_wrt prefix (fst (streaming_try client model_id prompt max_tokens temperature))
   \<and> sorted (map length (fst (streaming_try client model_id prompt max_tokens temperature)))
   \<and> fst (invoke_bedrock_streaming client model_id prompt max_tokens temperature) =
       fst (streaming_try client model_id prompt max_tokens temperature) @
       (case snd (streaming_try client model_id prompt max_tokens temperature) of
          None \<Rightarrow> []
        | Some e \<Rightarrow> [''Streaming Error: '' @ str_exn e])"
proof -
  obtain frames raised where run:
    "streaming_try client model_id prompt max_tokens temperature = (frames, raised)"
    by (cases "streaming_try client model_id prompt max_tokens temperature")
  have chain: "sorted_wrt prefix frames"
  proof (cases "streaming_request_body model_id prompt max_tokens temperature")
    case None
    with run show ?thesis by (auto simp: streaming_try_def)
  next
    case (Some body)
    show ?thesis
    proof (cases "invoke_model_with_response_stream client model_id body ''application/json''")
      case (Inl e)
      with Some run show ?thesis by (auto simp: streaming_try_def)
    next
      case (Inr events)
      with Some run have "stream_loop model_id [] events = (frames, raised)"
        by (simp add: streaming_try_def)
      from stream_loop_chain [OF this] show ?thesis by simp
    qed
  qed
  from chain have "sorted (map length frames)"
    by (rule sorted_wrt_prefix_length)
  moreover have "fst (invoke_bedrock_streaming client model_id prompt max_tokens temperature) =
      frames @ (case raised of None \<Rightarrow> [] | Some e \<Rightarrow> [''Streaming Error: '' @ str_exn e])"
    using run by (cases raised) (simp_all add: invoke_bedrock_streaming_def)
  ultimately show ?thesis using chain run by simp
qed

text \<open>
  C4 as stated fails: after a chunk without \<^verbatim>\<open>type\<close> for a Claude
  model, or a transport fault for a Titan model, the last frame is the error text, which is
  shorter than the frame before it and does not extend it.
\<close>

theorem frames_order_counterexample:
  "invoke_bedrock_streaming
     (fixed_client (Inr (Inr PyNone))
        (Inr [Inr (PyDict [(''type'', PyStr ''content_block_delta''),
                           (''delta'', PyDict [(''text'', PyStr ''The quick brown fox jumps'')])]),
              Inr (PyDict [])]))
     ''anthropic.claude-3-haiku-20240307-v1:0'' ''Hi'' 50 0.5 =
     ([''The quick brown fox jumps'', (''Streaming Error: '' @ quoted ''type'')], None)
   \<and> \<not> prefix ''The quick brown fox jumps'' (''Streaming Error: '' @ quoted ''type'')
   \<and> length (''Streaming Error: '' @ quoted ''type'') < length ''The quick brown fox jumps''
   \<and> invoke_bedrock_streaming
     (fixed_client (Inr (Inr PyNone))
        (Inr [Inr (PyDict [(''outputText'', PyStr ''The quick brown fox jumps'')]),
              Inl (OtherException ''timeout'')]))
     ''amazon.titan-text-express-v1'' ''Hi'' 50 0.5 =
     ([''The quick brown fox jumps'', ''Streaming Error: timeout''], None)
   \<and> \<not> prefix ''The quick brown fox jumps'' ''Streaming Error: timeout''
   \<and> length ''Streaming Error: timeout'' < length ''The quick brown fox jumps''"
  by (simp add: invoke_bedrock_streaming_def streaming_try_def streaming_request_body_def
      fixed_client_def stream_chunk_def and_then_def quoted_def)

text \<open>
  C5. Let the model id be one for which the request body is built, and let the
  transport return a stream that raises \<open>e\<close> after the chunks \<open>pre\<close>, each of
  which was processed without a fault and gave one of the \<open>frames\<close>. Then the
  generator yields these frames unchanged, then the one frame
  \<^verbatim>\<open>"Streaming Error: "\<close> followed by \<^verbatim>\<open>str(e)\<close>, and ends
  normally; the events after the fault are not read.
\<close>

theorem stream_fault_final_frame:
  assumes "streaming_request_body model_id prompt max_tokens temperature = Some body"
    and "invoke_model_with_response_stream client model_id body ''application/json'' =
           Inr (pre @ Inl e # rest)"
    and "stream_loop model_id [] pre = (frames, None)"
  shows "invoke_bedrock_streaming client model_id prompt max_tokens temperature =
           (frames @ [''Streaming Error: '' @ str_exn e], None)
         \<and> length frames = length pre"
  using assms(1,2) stream_loop_fault [OF assms(3), of e rest]
  by (simp add: invoke_bedrock_streaming_def streaming_try_def)

text \<open>
  The theorem for C5 at a Llama stream that breaks after two chunks.
\<close>

theorem stream_fault_final_frame_witness:
  "invoke_bedrock_streaming
     (fixed_client (Inr (Inr PyNone))
        (Inr [Inr (PyDict [(''generation'', PyStr ''Hel'')]),
              Inr (PyDict [(''generation'', PyStr ''lo'')]),
              Inl (OtherException ''connection reset''),
              Inr (PyDict [(''generation'', PyStr ''!'')])]))
     ''meta.llama2-70b-chat-v1'' ''Hi'' 50 0.5 =
     ([''Hel'', ''Hello'', ''Streaming Error: connection reset''], None)"
proof -
  let ?pre = "[Inr (PyDict [(''generation'', PyStr ''Hel'')]),
               Inr (PyDict [(''generation'', PyStr ''lo'')])] :: stream_event list"
  let ?rest = "[Inr (PyDict [(''generation'', PyStr ''!'')])] :: stream_event list"
  let ?client = "fixed_client (Inr (Inr PyNone))
        (Inr (?pre @ Inl (OtherException ''connection reset'') # ?rest))"
  have body: "streaming_request_body ''meta.llama2-70b-chat-v1'' ''Hi'' 50 0.5 =
      Some (PyDict
          [(''prompt'', PyStr ''<s>[INST] Hi [/INST]''),
           (''max_gen_len'', PyInt 50),
           (''temperature'', PyFloat 0.5),
           (''top_p'', PyFloat 0.9)])"
    by (simp add: streaming_request_body_def)
  have events: "invoke_model_with_response_stream ?client ''meta.llama2-70b-chat-v1''
      (PyDict
          [(''prompt'', PyStr ''<s>[INST] Hi [/INST]''),
           (''max_gen_len'', PyInt 50),
           (''temperature'', PyFloat 0.5),
           (''top_p'', PyFloat 0.9)]) ''application/json'' =
      Inr (?pre @ Inl (OtherException ''connection reset'') # ?rest)"
    by (simp add: fixed_client_def)
  have loop: "stream_loop ''meta.llama2-70b-chat-v1'' [] ?pre = ([''Hel'', ''Hello''], None)"
    by (simp add: stream_chunk_def and_then_def)
  from stream_fault_final_frame [OF body events loop] show ?thesis
    by simp
qed


section \<open>Request payloads\<close>

text \<open>
  C7. The registry maps \<^verbatim>\<open>Claude 3 Haiku\<close> to its wire id. With the
  prompt \<^verbatim>\<open>Hi\<close>, 50 tokens and temperature 0.5, both entry points build the
  body with the protocol version \<^verbatim>\<open>bedrock-2023-05-31\<close>, the single user
  message \<^verbatim>\<open>Hi\<close>, \<^verbatim>\<open>max_tokens\<close> 50 and
  \<^verbatim>\<open>temperature\<close> 0.5. The response with the text
  \<^verbatim>\<open>Hello!\<close> and the usage counts 2 and 3 is decoded to the successful
  result with that text and these counts.
\<close>

theorem claude_haiku_scenario:
  "map_option id_cfg (map_of MODELS ''Claude 3 Haiku'') =
     Some ''anthropic.claude-3-haiku-20240307-v1:0''
   \<and> model_request_body ''anthropic.claude-3-haiku-20240307-v1:0'' ''Hi'' 50 0.5 =
       Some (PyDict
         [(''anthropic_version'', PyStr ''bedrock-2023-05-31''),
          (''messages'', PyList [PyDict [(''role'', PyStr ''user''), (''content'', PyStr ''Hi'')]]),
          (''max_tokens'', PyInt 50),
          (''temperature'', PyFloat 0.5)])
   \<and> streaming_request_body ''anthropic.claude-3-haiku-20240307-v1:0'' ''Hi'' 50 0.5 =
       model_request_body ''anthropic.claude-3-haiku-20240307-v1:0'' ''Hi'' 50 0.5
   \<and> model_parse_response ''anthropic.claude-3-haiku-20240307-v1:0''
         (PyDict
            [(''content'', PyList [PyDict [(''text'', PyStr ''Hello!'')]]),
             (''usage'', PyDict [(''input_tokens'', PyInt 2), (''output_tokens'', PyInt 3)])]) =
       Inr (PyDict
         [(''text'', PyStr ''Hello!''),
          (''input_tokens'', PyInt 2),
          (''output_tokens'', PyInt 3),
          (''success'', PyBool True)])
   \<and> invoke_bedrock_model
         (fixed_client
            (Inr (Inr (PyDict
              [(''content'', PyList [PyDict [(''text'', PyStr ''Hello!'')]]),
               (''usage'', PyDict [(''input_tokens'', PyInt 2), (''output_tokens'', PyInt 3)])])))
            (Inr []))
         ''anthropic.claude-3-haiku-20240307-v1:0'' ''Hi'' 50 0.5 =
       Inr (PyDict
         [(''text'', PyStr ''Hello!''),
          (''input_tokens'', PyInt 2),
          (''output_tokens'', PyInt 3),
          (''success'', PyBool True)])"
  by (simp add: MODELS_def model_request_body_def streaming_request_body_def
      model_parse_response_def and_then_def invoke_bedrock_model_def model_try_def
      fixed_client_def)

text \<open>
  C8. For a model id of the Llama family and every prompt, token limit and
  temperature, both entry points build the body whose \<^verbatim>\<open>prompt\<close> is
  \<^verbatim>\<open><s>\<close>, \<^verbatim>\<open>[INST]\<close>, a space, the prompt as given, a
  space and \<^verbatim>\<open>[/INST]\<close>; the token limit is under
  \<^verbatim>\<open>max_gen_len\<close> and there is no key \<^verbatim>\<open>max_tokens\<close>; the
  temperature is the one given, and \<^verbatim>\<open>top_p\<close> is 0.9.
\<close>

theorem llama_payload:
  assumes "family_of model_id = Some InstructionTag"
  shows "model_request_body model_id prompt max_tokens temperature =
           Some (PyDict
             [(''prompt'', PyStr (''<s>'' @ ''[INST]'' @ '' '' @ prompt @ '' '' @ ''[/INST]'')),
              (''max_gen_len'', PyInt max_tokens),
              (''temperature'', PyFloat temperature),
              (''top_p'', PyFloat 0.9)])
       \<and> streaming_request_body model_id prompt max_tokens temperature =
           model_request_body model_id prompt max_tokens temperature
       \<and> (\<exists>fields. model_request_body model_id prompt max_tokens temperature = Some (PyDict fields)
             \<and> map_of fields ''max_tokens'' = None
             \<and> map_of fields ''max_gen_len'' = Some (PyInt max_tokens)
             \<and> map_of fields ''temperature'' = Some (PyFloat temperature)
             \<and> map_of fields ''top_p'' = Some (PyFloat 0.9))"
  using assms
  by (simp add: family_of_def model_request_body_def streaming_request_body_def split: if_splits)

text \<open>
  The theorem for C8 at the registry's Llama 2 model.
\<close>

theorem llama_payload_witness:
  "family_of ''meta.llama2-70b-chat-v1'' = Some InstructionTag
   \<and> model_request_body ''meta.llama2-70b-chat-v1'' ''Tell me a joke'' 200 0.7 =
       Some (PyDict
         [(''prompt'', PyStr ''<s>[INST] Tell me a joke [/INST]''),
          (''max_gen_len'', PyInt 200),
          (''temperature'', PyFloat 0.7),
          (''top_p'', PyFloat 0.9)])
   \<and> streaming_request_body ''meta.llama2-70b-chat-v1'' ''Tell me a joke'' 200 0.7 =
       Some (PyDict
         [(''prompt'', PyStr ''<s>[INST] Tell me a joke [/INST]''),
          (''max_gen_len'', PyInt 200),
          (''temperature'', PyFloat 0.7),
          (''top_p'', PyFloat 0.9)])"
proof -
  have fam: "family_of ''meta.llama2-70b-chat-v1'' = Some InstructionTag"
    by (simp add: family_of_def)
  from llama_payload [OF fam, of "''Tell me a joke''" 200 "0.7"] fam show ?thesis
    by simp
qed

text \<open>
  C9 does not hold of the code. For the Titan model of the registry, the single-shot
  body carries \<^verbatim>\<open>stopSequences\<close> with an empty list and the streaming body
  has no such key, so the two entry points do not build the same payload.
\<close>

theorem titan_bodies_differ:
  "model_request_body ''amazon.titan-text-express-v1'' ''Hi'' 50 0.5 =
     Some (PyDict
       [(''inputText'', PyStr ''Hi''),
        (''textGenerationConfig'', PyDict
           [(''maxTokenCount'', PyInt 50),
            (''temperature'', PyFloat 0.5),
            (''topP'', PyInt 1),
            (''stopSequences'', PyList [])])])
   \<and> streaming_request_body ''amazon.titan-text-express-v1'' ''Hi'' 50 0.5 =
     Some (PyDict
       [(''inputText'', PyStr ''Hi''),
        (''textGenerationConfig'', PyDict
           [(''maxTokenCount'', PyInt 50),
            (''temperature'', PyFloat 0.5),
            (''topP'', PyInt 1)])])
   \<and> model_request_body ''amazon.titan-text-express-v1'' ''Hi'' 50 0.5 \<noteq>
       streaming_request_body ''amazon.titan-text-express-v1'' ''Hi'' 50 0.5"
  by (simp add: model_request_body_def streaming_request_body_def)

section \<open>The cost calculator: results\<close>


end
